theory Spec2Isabelle
  imports Main "HOL-Library.Multiset" "HOL-Library.Sublist" "HOL-Library.Char_ord" "HOL-Library.List_Lexorder"
begin

section \<open>Data model\<close>

text \<open>
  The Python code works on dictionaries decoded from JSON. A dictionary is modelled as a
  record with one optional field for every key the code reads; \<open>None\<close> (or \<open>Absent\<close>) is a
  key that is not there. Times are integer clock ticks. Human-readable messages are kept
  as structured values, since only their kind and their arguments matter.
\<close>

datatype py_exn = KeyError | AttributeError | TypeError

datatype cval = VStr string | VInt int | VBool bool

datatype 'a jfield = Absent | Null | Val 'a

type_synonym device = "string \<rightharpoonup> string"

record obj =
  o_name :: "string option"
  o_created_at :: "string option"
  o_status_code :: "int option"
  o_err :: "string option"
  o_config :: "(string \<rightharpoonup> cval) jfield"
  o_devices :: "(string \<rightharpoonup> device) jfield"
  o_profiles :: "string list jfield"

definition empty_obj :: obj where
  "empty_obj = \<lparr>o_name = None, o_created_at = None, o_status_code = None, o_err = None,
     o_config = Absent, o_devices = Absent, o_profiles = Absent\<rparr>"

datatype metadata = MObj obj | MList "obj list"

datatype errmsg =
    Msg string
  | InvalidOperationURL string
  | Timeout
  | UnexpectedStatus "int option"

record response =
  r_success :: "bool option"
  r_error :: "errmsg option"
  r_error_code :: "int option"
  r_type :: "string option"
  r_operation :: "string option"
  r_metadata :: "metadata option"

text \<open>
  A dict the caller passes in and the code iterates over is the list of its items, in
  iteration order; \<open>None\<close> is Python's \<open>None\<close>.
\<close>

type_synonym cfg_items = "(string \<times> cval) list"
type_synonym dev_items = "(string \<times> device) list"
type_synonym src_items = "(string \<times> string) list"

record create_data =
  cd_name :: string
  cd_type :: string
  cd_ephemeral :: bool
  cd_source :: "src_items option"
  cd_config :: "cfg_items option"
  cd_devices :: "dev_items option"
  cd_profiles :: "string list option"

datatype body = BData metadata | BCreate create_data

datatype http_method = GET | POST | PUT | DELETE | PATCH

datatype request = Request http_method string "body option" "(string \<times> int) list"

text \<open>
  What one HTTP exchange can end in, seen from \<open>_request\<close>: a decoded JSON object, a status
  outside 2xx (\<open>raise_for_status\<close>), a connection failure, or a body that is not JSON.
\<close>

datatype outcome =
    Json response
  | HttpError int string
  | TransportError string
  | NotJson string

datatype event = Req request | Slept int | WaitEntered string

record 's world =
  st :: 's
  trace :: "event list"

text \<open>
  The control plane and the clock are a black box: \<open>serve\<close> answers a request and moves the
  hidden state on, \<open>now\<close> reads \<open>time.time()\<close>, \<open>sleep\<close> is \<open>time.sleep\<close>. The \<open>trace\<close> of a
  world is a ghost log of what the client did.
\<close>

record 's env =
  serve :: "'s \<Rightarrow> request \<Rightarrow> outcome \<times> 's"
  now :: "'s \<Rightarrow> int"
  sleep :: "int \<Rightarrow> 's \<Rightarrow> 's"

section \<open>API client\<close>

definition error_dict :: "string \<Rightarrow> int option \<Rightarrow> response" where
  "error_dict e c = \<lparr>r_success = None, r_error = Some (Msg e), r_error_code = c,
     r_type = None, r_operation = None, r_metadata = None\<rparr>"

text \<open>\<open>IncusClient._request\<close>: one exchange, every \<open>RequestException\<close> turned into a dict.\<close>

definition request :: "'s env \<Rightarrow> http_method \<Rightarrow> string \<Rightarrow> body option \<Rightarrow> (string \<times> int) list
    \<Rightarrow> 's world \<Rightarrow> response \<times> 's world" where
  "request E m endpoint data params w =
     (case serve E (st w) (Request m endpoint data params) of
        (out, s') \<Rightarrow>
          ((case out of
              Json r \<Rightarrow> r
            | HttpError status e \<Rightarrow> error_dict e (Some status)
            | TransportError e \<Rightarrow> error_dict e None
            | NotJson e \<Rightarrow> error_dict e None),
           w\<lparr>st := s', trace := trace w @ [Req (Request m endpoint data params)]\<rparr>))"

text \<open>The dict \<open>{"success": False, "error": ...}\<close> of the wait protocol.\<close>

definition failure :: "errmsg \<Rightarrow> response" where
  "failure e = \<lparr>r_success = Some False, r_error = Some e, r_error_code = None,
     r_type = None, r_operation = None, r_metadata = None\<rparr>"

text \<open>\<open>str.replace(old, new)\<close> for a non-empty \<open>old\<close>; \<open>k\<close> counts characters of a match
  still to be skipped.\<close>

primrec replace_from :: "string \<Rightarrow> string \<Rightarrow> nat \<Rightarrow> string \<Rightarrow> string" where
  "replace_from old new k [] = []"
| "replace_from old new k (c # cs) =
     (if 0 < k then replace_from old new (k - 1) cs
      else if prefix old (c # cs) then new @ replace_from old new (length old - 1) cs
      else c # replace_from old new 0 cs)"

definition py_replace :: "string \<Rightarrow> string \<Rightarrow> string \<Rightarrow> string" where
  "py_replace s old new = replace_from old new 0 s"

definition do_sleep :: "'s env \<Rightarrow> int \<Rightarrow> 's world \<Rightarrow> 's world" where
  "do_sleep E interval w = w\<lparr>st := sleep E interval (st w), trace := trace w @ [Slept interval]\<rparr>"

definition running_codes :: "int option set" where
  "running_codes = {Some 100, Some 101, Some 103}"

text \<open>
  \<open>_sync_request\<close> and \<open>_wait_for_operation\<close> call each other, and the latter holds the
  \<open>while True\<close> loop. They are one function \<open>client\<close> that recurses on fuel and is told by a
  \<open>call\<close> which of the three bodies to run: the body of \<open>_sync_request\<close>, the entry of
  \<open>_wait_for_operation\<close>, or one round of its loop with \<open>started\<close> already read. \<open>None\<close> is
  a run that has not returned within the fuel.
\<close>

datatype call =
    SyncRequest http_method string "body option" "(string \<times> int) list"
  | WaitForOperation string int int
  | WaitLoop string int int int

primrec client :: "'s env \<Rightarrow> nat \<Rightarrow> call \<Rightarrow> 's world
      \<Rightarrow> ((py_exn + response) \<times> 's world) option" where
  "client E 0 c w = None"
| "client E (Suc n) c w =
    (case c of
       SyncRequest m endpoint data params \<Rightarrow>
        (case request E m endpoint data params w of
          (result, w1) \<Rightarrow>
            if r_error_code result \<noteq> Some 0 then Some (Inr result, w1)
            else if r_type result = Some ''async'' then
              (case r_operation result of
                 None \<Rightarrow> Some (Inr result, w1)
               | Some op \<Rightarrow>
                   if op = [] then Some (Inr result, w1)
                   else client E n (WaitForOperation op 300 1) w1)
            else Some (Inr result, w1))
     | WaitForOperation operation_url timeout interval \<Rightarrow>
        (let w0 = w\<lparr>trace := trace w @ [WaitEntered operation_url]\<rparr>;
             started = now E (st w0)
         in if \<not> prefix ''/1.0/operations/'' operation_url then
              Some (Inr (failure (InvalidOperationURL operation_url)), w0)
            else client E n (WaitLoop operation_url started timeout interval) w0)
     | WaitLoop url started timeout interval \<Rightarrow>
        (if now E (st w) - started > timeout then Some (Inr (failure Timeout), w)
         else
          (case client E n (SyncRequest GET (py_replace url ''/1.0/'' ''/'') None []) w of
             None \<Rightarrow> None
           | Some (Inl x, w1) \<Rightarrow> Some (Inl x, w1)
           | Some (Inr result, w1) \<Rightarrow>
               if r_error_code result \<noteq> Some 0 then
                 Some (Inr (failure (case r_error result of None \<Rightarrow> Msg ''Unknown error''
                                                          | Some e \<Rightarrow> e)), w1)
               else
                 (case r_metadata result of
                    Some (MList xs) \<Rightarrow> Some (Inl AttributeError, w1)
                  | md \<Rightarrow>
                      (let op = (case md of Some (MObj ob) \<Rightarrow> ob | _ \<Rightarrow> empty_obj);
                           status_code = o_status_code op
                       in if status_code \<in> running_codes then
                            client E n (WaitLoop url started timeout interval)
                              (do_sleep E interval w1)
                          else if status_code = Some 200 then Some (Inr result, w1)
                          else if status_code = Some 400 then
                            Some (Inr (failure (case o_err op of None \<Rightarrow> Msg ''Operation failed''
                                                               | Some e \<Rightarrow> Msg e)), w1)
                          else Some (Inr (failure (UnexpectedStatus status_code)), w1))))))"

definition sync_request :: "'s env \<Rightarrow> nat \<Rightarrow> http_method \<Rightarrow> string \<Rightarrow> body option
      \<Rightarrow> (string \<times> int) list \<Rightarrow> 's world \<Rightarrow> ((py_exn + response) \<times> 's world) option" where
  "sync_request E n m endpoint data params w = client E n (SyncRequest m endpoint data params) w"

definition wait_for_operation :: "'s env \<Rightarrow> nat \<Rightarrow> string \<Rightarrow> int \<Rightarrow> int \<Rightarrow> 's world
      \<Rightarrow> ((py_exn + response) \<times> 's world) option" where
  "wait_for_operation E n operation_url timeout interval w =
     client E n (WaitForOperation operation_url timeout interval) w"


section \<open>Execution module: instances\<close>

record mresult =
  m_success :: bool
  m_error :: "errmsg option"
  m_message :: "string option"
  m_instance :: "metadata option"
  m_snapshots :: "metadata option"

definition fail_result :: "errmsg \<Rightarrow> mresult" where
  "fail_result e = \<lparr>m_success = False, m_error = Some e, m_message = None,
     m_instance = None, m_snapshots = None\<rparr>"

definition ok_message :: "string \<Rightarrow> mresult" where
  "ok_message msg = \<lparr>m_success = True, m_error = None, m_message = Some msg,
     m_instance = None, m_snapshots = None\<rparr>"

text \<open>\<open>urllib.parse.quote\<close> with its default \<open>safe='/'\<close>.\<close>

definition safe_char :: "char \<Rightarrow> bool" where
  "safe_char c =
     (c \<in> set ''ABCDEFGHIJKLMNOPQRSTUVWXYZabcdefghijklmnopqrstuvwxyz0123456789_.-~/'')"

definition hex_digit :: "nat \<Rightarrow> char" where
  "hex_digit n = ''0123456789ABCDEF'' ! n"

definition quote :: "string \<Rightarrow> string" where
  "quote s = concat (map (\<lambda>c. if safe_char c then [c]
       else [CHR ''%'', hex_digit (of_char c div 16), hex_digit (of_char c mod 16)]) s)"

text \<open>
  The tail shared by the accessors:
  \<open>if result.get('error_code') != 0: return {'success': False, 'error': result['error']}\<close>,
  where the subscript raises when the key is missing, and the success dict otherwise.
\<close>

definition finish :: "response \<Rightarrow> string \<Rightarrow> py_exn + mresult" where
  "finish result msg =
     (if r_error_code result \<noteq> Some 0 then
        (case r_error result of None \<Rightarrow> Inl KeyError | Some e \<Rightarrow> Inr (fail_result e))
      else Inr (ok_message msg))"

definition instance_get :: "'s env \<Rightarrow> string \<Rightarrow> 's world \<Rightarrow> (py_exn + mresult) \<times> 's world" where
  "instance_get E name w =
     (case request E GET (''/instances/'' @ quote name) None [] w of
        (result, w1) \<Rightarrow>
          if r_error_code result \<noteq> Some 0 then
            (case r_error result of
               None \<Rightarrow> (Inl KeyError, w1)
             | Some e \<Rightarrow> (Inr (fail_result e), w1))
          else
            (Inr \<lparr>m_success = True, m_error = None, m_message = None,
                  m_instance = Some (case r_metadata result of None \<Rightarrow> MObj empty_obj
                                                               | Some md \<Rightarrow> md),
                  m_snapshots = None\<rparr>, w1))"

definition truthy :: "'a list option \<Rightarrow> bool" where
  "truthy x = (case x of None \<Rightarrow> False | Some xs \<Rightarrow> xs \<noteq> [])"

definition instance_create :: "'s env \<Rightarrow> nat \<Rightarrow> string \<Rightarrow> src_items option \<Rightarrow> string
      \<Rightarrow> cfg_items option \<Rightarrow> dev_items option \<Rightarrow> string list option \<Rightarrow> bool \<Rightarrow> 's world
      \<Rightarrow> ((py_exn + mresult) \<times> 's world) option" where
  "instance_create E n name source instance_type config devices profiles ephemeral w =
     (let data = \<lparr>cd_name = name, cd_type = instance_type, cd_ephemeral = ephemeral,
                   cd_source = (if truthy source then source else None),
                   cd_config = (if truthy config then config else None),
                   cd_devices = (if truthy devices then devices else None),
                   cd_profiles = (if truthy profiles then profiles else None)\<rparr>
      in case sync_request E n POST ''/instances'' (Some (BCreate data)) [] w of
           None \<Rightarrow> None
         | Some (Inl x, w1) \<Rightarrow> Some (Inl x, w1)
         | Some (Inr result, w1) \<Rightarrow>
             Some (finish result (''Instance '' @ name @ '' created successfully''), w1))"

text \<open>\<open>d.update(items)\<close> on a live dict \<open>d\<close>.\<close>

definition dict_update :: "('k \<rightharpoonup> 'v) \<Rightarrow> ('k \<times> 'v) list \<Rightarrow> ('k \<rightharpoonup> 'v)" where
  "dict_update d items = fold (\<lambda>(k, v) m. m(k \<mapsto> v)) items d"


text \<open>\<open>if config: instance_data['config'].update(config)\<close>\<close>

definition merge_config :: "cfg_items option \<Rightarrow> metadata \<Rightarrow> py_exn + metadata" where
  "merge_config config instance_data =
     (if \<not> truthy config then Inr instance_data
      else
        (case instance_data of
           MList xs \<Rightarrow> Inl TypeError
         | MObj ob \<Rightarrow>
             (case o_config ob of
                Absent \<Rightarrow> Inl KeyError
              | Null \<Rightarrow> Inl AttributeError
              | Val c \<Rightarrow>
                  Inr (MObj (ob\<lparr>o_config := Val (dict_update c (case config of Some items \<Rightarrow> items
                                                                              | None \<Rightarrow> []))\<rparr>)))))"

text \<open>The loop \<open>for dev_name, dev_conf in devices.items()\<close> of \<open>instance_update\<close>.\<close>

primrec merge_devices_loop :: "dev_items \<Rightarrow> obj \<Rightarrow> py_exn + obj" where
  "merge_devices_loop [] ob = Inr ob"
| "merge_devices_loop (item # rest) ob =
     (case item of
        (dev_name, dev_conf) \<Rightarrow>
          (case o_devices ob of
             Absent \<Rightarrow> Inl KeyError
           | Null \<Rightarrow> Inl TypeError
           | Val ds \<Rightarrow>
               (case ds dev_name of
                  Some existing \<Rightarrow>
                    merge_devices_loop rest (ob\<lparr>o_devices := Val (ds(dev_name \<mapsto> existing ++ dev_conf))\<rparr>)
                | None \<Rightarrow>
                    merge_devices_loop rest (ob\<lparr>o_devices := Val (ds(dev_name \<mapsto> dev_conf))\<rparr>))))"

definition merge_devices :: "dev_items option \<Rightarrow> metadata \<Rightarrow> py_exn + metadata" where
  "merge_devices devices instance_data =
     (if \<not> truthy devices then Inr instance_data
      else
        (case instance_data of
           MList xs \<Rightarrow> Inl TypeError
         | MObj ob \<Rightarrow>
             (case merge_devices_loop (case devices of Some items \<Rightarrow> items | None \<Rightarrow> []) ob of
                Inl x \<Rightarrow> Inl x
              | Inr ob' \<Rightarrow> Inr (MObj ob'))))"

text \<open>\<open>if profiles is not None: instance_data['profiles'] = profiles\<close>\<close>

definition set_profiles :: "string list option \<Rightarrow> metadata \<Rightarrow> py_exn + metadata" where
  "set_profiles profiles instance_data =
     (case profiles of
        None \<Rightarrow> Inr instance_data
      | Some ps \<Rightarrow>
          (case instance_data of
             MList xs \<Rightarrow> Inl TypeError
           | MObj ob \<Rightarrow> Inr (MObj (ob\<lparr>o_profiles := Val ps\<rparr>))))"

definition update_fields :: "cfg_items option \<Rightarrow> dev_items option \<Rightarrow> string list option
      \<Rightarrow> metadata \<Rightarrow> py_exn + metadata" where
  "update_fields config devices profiles instance_data =
     (case merge_config config instance_data of
        Inl x \<Rightarrow> Inl x
      | Inr d1 \<Rightarrow>
          (case merge_devices devices d1 of
             Inl x \<Rightarrow> Inl x
           | Inr d2 \<Rightarrow> set_profiles profiles d2))"

definition instance_update :: "'s env \<Rightarrow> nat \<Rightarrow> string \<Rightarrow> cfg_items option \<Rightarrow> dev_items option
      \<Rightarrow> string list option \<Rightarrow> 's world \<Rightarrow> ((py_exn + mresult) \<times> 's world) option" where
  "instance_update E n name config devices profiles w =
     (case instance_get E name w of
        (Inl x, w1) \<Rightarrow> Some (Inl x, w1)
      | (Inr current, w1) \<Rightarrow>
          if \<not> m_success current then Some (Inr current, w1)
          else
            (case m_instance current of
               None \<Rightarrow> Some (Inl KeyError, w1)
             | Some instance_data \<Rightarrow>
                 (case update_fields config devices profiles instance_data of
                    Inl x \<Rightarrow> Some (Inl x, w1)
                  | Inr data \<Rightarrow>
                      (case sync_request E n PUT (''/instances/'' @ quote name)
                              (Some (BData data)) [] w1 of
                         None \<Rightarrow> None
                       | Some (Inl x, w2) \<Rightarrow> Some (Inl x, w2)
                       | Some (Inr result, w2) \<Rightarrow>
                           Some (finish result (''Instance '' @ name @ '' updated successfully''),
                                 w2)))))"

section \<open>Execution module: server settings\<close>



section \<open>State module: \<open>instance_present\<close>\<close>

text \<open>\<open>str(value)\<close> for the scalars a configuration value can be.\<close>

fun dec_digits :: "nat \<Rightarrow> string" where
  "dec_digits n =
     (if n < 10 then [''0123456789'' ! n]
      else dec_digits (n div 10) @ [''0123456789'' ! (n mod 10)])"

declare dec_digits.simps [simp del]

definition py_str :: "cval \<Rightarrow> string" where
  "py_str v =
     (case v of
        VStr s \<Rightarrow> s
      | VInt i \<Rightarrow> (if i < 0 then CHR ''-'' # dec_digits (nat (- i)) else dec_digits (nat i))
      | VBool b \<Rightarrow> (if b then ''True'' else ''False''))"

record new_desc =
  nd_name :: string
  nd_type :: string
  nd_config :: "cfg_items option"
  nd_devices :: "dev_items option"
  nd_profiles :: "string list option"
  nd_ephemeral :: bool
  nd_source :: "src_items option"

datatype inst_new = NewDesc new_desc | NewName string

text \<open>
  The \<open>changes\<close> dict of \<open>instance_present\<close>: a field is \<open>None\<close> when the key is not set. Each
  entry holds the pair \<open>(old, new)\<close>; for \<open>instance\<close> the old value is always \<open>None\<close>.
\<close>

record changes =
  ch_config :: "(string \<rightharpoonup> cval option \<times> string) option"
  ch_profiles :: "(string list \<times> string list) option"
  ch_devices :: "(string \<rightharpoonup> device option \<times> device) option"
  ch_instance :: "inst_new option"

definition no_changes :: changes where
  "no_changes = \<lparr>ch_config = None, ch_profiles = None, ch_devices = None, ch_instance = None\<rparr>"

datatype comment =
    NoComment
  | AlreadyDesired string
  | WouldUpdate string
  | Updated string
  | FailedUpdate string "errmsg option"
  | WouldCreate string
  | Created string
  | FailedCreate string "errmsg option"
  | NotExist string
  | ListFailed "errmsg option"
  | RotationNotNeeded nat int
  | WouldDelete nat string
  | DeletedOld nat string
  | FailedSome "(string option \<times> errmsg option) list"
  | FailedGet string "errmsg option"
  | AlreadyDetached string string
  | NotVolume string string string
  | WouldDetach string string
  | Detached string string
  | FailedDetach string "errmsg option"

record 'c ret =
  ret_name :: string
  ret_result :: "bool option"
  ret_changes :: 'c
  ret_comment :: comment

text \<open>\<open>instance.get(key, {}) or {}\<close>\<close>

definition or_empty :: "('k \<rightharpoonup> 'v) jfield \<Rightarrow> ('k \<rightharpoonup> 'v)" where
  "or_empty f = (case f of Val m \<Rightarrow> m | _ \<Rightarrow> Map.empty)"

definition or_nil :: "'a list jfield \<Rightarrow> 'a list" where
  "or_nil f = (case f of Val xs \<Rightarrow> xs | _ \<Rightarrow> [])"

definition config_changes :: "(string \<rightharpoonup> cval) \<Rightarrow> cfg_items
      \<Rightarrow> (string \<rightharpoonup> cval option \<times> string)" where
  "config_changes current_config items =
     fold (\<lambda>(key, value) acc.
             (let new_val = py_str value
              in if current_config key \<noteq> Some (VStr new_val)
                 then acc(key \<mapsto> (current_config key, new_val)) else acc))
          items Map.empty"

definition device_changes :: "(string \<rightharpoonup> device) \<Rightarrow> dev_items
      \<Rightarrow> (string \<rightharpoonup> device option \<times> device)" where
  "device_changes current_devices items =
     fold (\<lambda>(dev_name, dev_conf) acc.
             if current_devices dev_name \<noteq> Some dev_conf
             then acc(dev_name \<mapsto> (current_devices dev_name, dev_conf)) else acc)
          items Map.empty"

text \<open>
  The three comparisons of \<open>instance_present\<close> on a live instance. \<open>instance.get\<close> raises
  on a value that is not a dict, and is reached only when a section is given.
\<close>

definition present_changes :: "metadata \<Rightarrow> cfg_items option \<Rightarrow> dev_items option
      \<Rightarrow> string list option \<Rightarrow> py_exn + changes" where
  "present_changes inst config devices profiles =
     (if \<not> truthy config \<and> profiles = None \<and> \<not> truthy devices then Inr no_changes
      else
        (case inst of
           MList xs \<Rightarrow> Inl AttributeError
         | MObj ob \<Rightarrow>
             Inr \<lparr>ch_config =
                    (case config of
                       None \<Rightarrow> None
                     | Some items \<Rightarrow>
                         (let cc = config_changes (or_empty (o_config ob)) items
                          in if cc = Map.empty then None else Some cc)),
                  ch_profiles =
                    (case profiles of
                       None \<Rightarrow> None
                     | Some ps \<Rightarrow>
                         (let current_profiles = or_nil (o_profiles ob)
                          in if set current_profiles \<noteq> set ps then Some (current_profiles, ps)
                             else None)),
                  ch_devices =
                    (case devices of
                       None \<Rightarrow> None
                     | Some items \<Rightarrow>
                         (let dc = device_changes (or_empty (o_devices ob)) items
                          in if dc = Map.empty then None else Some dc)),
                  ch_instance = None\<rparr>))"

definition instance_present :: "'s env \<Rightarrow> nat \<Rightarrow> bool \<Rightarrow> string \<Rightarrow> src_items option \<Rightarrow> string
      \<Rightarrow> cfg_items option \<Rightarrow> dev_items option \<Rightarrow> string list option \<Rightarrow> bool \<Rightarrow> 's world
      \<Rightarrow> ((py_exn + changes ret) \<times> 's world) option" where
  "instance_present E n test name source instance_type config devices profiles ephemeral w =
     (case instance_get E name w of
        (Inl x, w1) \<Rightarrow> Some (Inl x, w1)
      | (Inr instance_info, w1) \<Rightarrow>
          if m_success instance_info then
            (case present_changes
                    (case m_instance instance_info of None \<Rightarrow> MObj empty_obj | Some i \<Rightarrow> i)
                    config devices profiles of
               Inl x \<Rightarrow> Some (Inl x, w1)
             | Inr chs \<Rightarrow>
                 if chs \<noteq> no_changes then
                   if test then
                     Some (Inr \<lparr>ret_name = name, ret_result = None, ret_changes = chs,
                                ret_comment = WouldUpdate name\<rparr>, w1)
                   else
                     (case instance_update E n name config devices profiles w1 of
                        None \<Rightarrow> None
                      | Some (Inl x, w2) \<Rightarrow> Some (Inl x, w2)
                      | Some (Inr update_result, w2) \<Rightarrow>
                          if m_success update_result then
                            Some (Inr \<lparr>ret_name = name, ret_result = Some True,
                                       ret_changes = chs, ret_comment = Updated name\<rparr>, w2)
                          else
                            Some (Inr \<lparr>ret_name = name, ret_result = Some False,
                                       ret_changes = no_changes,
                                       ret_comment = FailedUpdate name (m_error update_result)\<rparr>,
                                  w2))
                 else
                   Some (Inr \<lparr>ret_name = name, ret_result = Some True, ret_changes = no_changes,
                              ret_comment = AlreadyDesired name\<rparr>, w1))
          else
            (let desc = \<lparr>nd_name = name, nd_type = instance_type, nd_config = config,
                          nd_devices = devices, nd_profiles = profiles,
                          nd_ephemeral = ephemeral, nd_source = source\<rparr>
             in if test then
                  Some (Inr \<lparr>ret_name = name, ret_result = None,
                             ret_changes = no_changes\<lparr>ch_instance := Some (NewDesc desc)\<rparr>,
                             ret_comment = WouldCreate name\<rparr>, w1)
                else
                  (case instance_create E n name source instance_type config devices profiles
                          ephemeral w1 of
                     None \<Rightarrow> None
                   | Some (Inl x, w2) \<Rightarrow> Some (Inl x, w2)
                   | Some (Inr create_result, w2) \<Rightarrow>
                       if m_success create_result then
                         Some (Inr \<lparr>ret_name = name, ret_result = Some True,
                                    ret_changes = no_changes\<lparr>ch_instance := Some (NewName name)\<rparr>,
                                    ret_comment = Created name\<rparr>, w2)
                       else
                         Some (Inr \<lparr>ret_name = name, ret_result = Some False,
                                    ret_changes = no_changes,
                                    ret_comment = FailedCreate name (m_error create_result)\<rparr>,
                               w2))))"

section \<open>State module: \<open>volume_detached\<close>\<close>

text \<open>
  The \<open>changes\<close> dict here is \<open>None\<close> when empty and \<open>Some device\<close> for
  \<open>{"device": {"old": device, "new": None}}\<close>. The lines that build \<open>remaining_devices\<close>
  and assign it to the fetched \<open>instance_data\<close> change a local dict that is not used again;
  what is sent is the call \<open>instance_update(instance, devices={device_name: {}})\<close>.
\<close>

definition volume_detached :: "'s env \<Rightarrow> nat \<Rightarrow> bool \<Rightarrow> string \<Rightarrow> string \<Rightarrow> string
      \<Rightarrow> string option \<Rightarrow> 's world \<Rightarrow> ((py_exn + device option ret) \<times> 's world) option" where
  "volume_detached E n test name pool inst device_name_arg w =
     (let device_name = (case device_name_arg of None \<Rightarrow> name
                                               | Some dn \<Rightarrow> if dn = [] then name else dn)
      in case instance_get E inst w of
           (Inl x, w1) \<Rightarrow> Some (Inl x, w1)
         | (Inr instance_info, w1) \<Rightarrow>
             if \<not> m_success instance_info then
               Some (Inr \<lparr>ret_name = name, ret_result = Some False, ret_changes = None,
                          ret_comment = FailedGet inst (m_error instance_info)\<rparr>, w1)
             else
               (case (case m_instance instance_info of None \<Rightarrow> MObj empty_obj | Some i \<Rightarrow> i) of
                  MList xs \<Rightarrow> Some (Inl AttributeError, w1)
                | MObj ob \<Rightarrow>
                    (case o_devices ob of
                       Null \<Rightarrow> Some (Inl TypeError, w1)
                     | f \<Rightarrow>
                         (let current_devices = (case f of Val ds \<Rightarrow> ds | _ \<Rightarrow> Map.empty)
                          in case current_devices device_name of
                               None \<Rightarrow>
                                 Some (Inr \<lparr>ret_name = name, ret_result = Some True,
                                            ret_changes = None,
                                            ret_comment = AlreadyDetached name inst\<rparr>, w1)
                             | Some device \<Rightarrow>
                                 if device ''pool'' \<noteq> Some pool \<or> device ''source'' \<noteq> Some name
                                 then
                                   Some (Inr \<lparr>ret_name = name, ret_result = Some True,
                                              ret_changes = None,
                                              ret_comment = NotVolume device_name name pool\<rparr>,
                                         w1)
                                 else if test then
                                   Some (Inr \<lparr>ret_name = name, ret_result = None,
                                              ret_changes = Some device,
                                              ret_comment = WouldDetach name inst\<rparr>, w1)
                                 else
                                   (case instance_update E n inst None
                                           (Some [(device_name, Map.empty)]) None w1 of
                                      None \<Rightarrow> None
                                    | Some (Inl x, w2) \<Rightarrow> Some (Inl x, w2)
                                    | Some (Inr update_result, w2) \<Rightarrow>
                                        if m_success update_result then
                                          Some (Inr \<lparr>ret_name = name, ret_result = Some True,
                                                     ret_changes = Some device,
                                                     ret_comment = Detached name inst\<rparr>, w2)
                                        else
                                          Some (Inr \<lparr>ret_name = name,
                                                     ret_result = Some False,
                                                     ret_changes = None,
                                                     ret_comment =
                                                       FailedDetach name (m_error update_result)\<rparr>,
                                                w2))))))"

section \<open>Snapshot rotation\<close>

definition instance_snapshot_list :: "'s env \<Rightarrow> string \<Rightarrow> int \<Rightarrow> 's world
      \<Rightarrow> (py_exn + mresult) \<times> 's world" where
  "instance_snapshot_list E inst recursion w =
     (case request E GET (''/instances/'' @ quote inst @ ''/snapshots'') None
              [(''recursion'', recursion)] w of
        (result, w1) \<Rightarrow>
          if r_error_code result \<noteq> Some 0 then
            (case r_error result of
               None \<Rightarrow> (Inl KeyError, w1)
             | Some e \<Rightarrow> (Inr (fail_result e), w1))
          else
            (Inr \<lparr>m_success = True, m_error = None, m_message = None, m_instance = None,
                  m_snapshots = Some (case r_metadata result of None \<Rightarrow> MList []
                                                               | Some md \<Rightarrow> md)\<rparr>, w1))"

text \<open>\<open>quote\<close> raises \<open>TypeError\<close> on \<open>None\<close>, the name of a snapshot dict without \<open>name\<close>.\<close>

definition instance_snapshot_delete :: "'s env \<Rightarrow> nat \<Rightarrow> string \<Rightarrow> string option \<Rightarrow> 's world
      \<Rightarrow> ((py_exn + mresult) \<times> 's world) option" where
  "instance_snapshot_delete E n inst snapshot_name w =
     (case snapshot_name of
        None \<Rightarrow> Some (Inl TypeError, w)
      | Some sn \<Rightarrow>
          (case sync_request E n DELETE
                  (''/instances/'' @ quote inst @ ''/snapshots/'' @ quote sn) None [] w of
             None \<Rightarrow> None
           | Some (Inl x, w1) \<Rightarrow> Some (Inl x, w1)
           | Some (Inr result, w1) \<Rightarrow>
               Some (finish result (''Snapshot '' @ sn @ '' of instance '' @ inst
                                     @ '' deleted successfully''), w1)))"

text \<open>
  \<open>fnmatch.fnmatch\<close> is the standard library's; it is the parameter \<open>fnmatch\<close> below, taking
  the name and the pattern. The sort is \<open>list.sort(key=...)\<close>, which is stable, on the
  \<open>created_at\<close> strings in Python's string order.
\<close>

definition name_key :: "obj \<Rightarrow> string" where
  "name_key s = (case o_name s of None \<Rightarrow> [] | Some n \<Rightarrow> n)"

definition created_key :: "obj \<Rightarrow> string" where
  "created_key s = (case o_created_at s of None \<Rightarrow> [] | Some t \<Rightarrow> t)"

definition matching_snapshots :: "(string \<Rightarrow> string \<Rightarrow> bool) \<Rightarrow> string \<Rightarrow> obj list \<Rightarrow> obj list" where
  "matching_snapshots fnmatch pattern current_snapshots =
     sort_key created_key (filter (\<lambda>s. fnmatch (name_key s) pattern) current_snapshots)"

text \<open>The slice \<open>xs[:k]\<close>.\<close>

definition py_upto :: "'a list \<Rightarrow> int \<Rightarrow> 'a list" where
  "py_upto xs k = (if 0 \<le> k then take (nat k) xs else take (nat (int (length xs) + k)) xs)"

definition to_delete :: "obj list \<Rightarrow> int \<Rightarrow> obj list" where
  "to_delete matching keep = py_upto matching (int (length matching) - keep)"

text \<open>The loop \<open>for snap in to_delete\<close>, with the lists \<open>deleted\<close> and \<open>failed\<close> it appends to.\<close>

primrec delete_loop :: "'s env \<Rightarrow> nat \<Rightarrow> string \<Rightarrow> obj list \<Rightarrow> string option list
      \<Rightarrow> (string option \<times> errmsg option) list \<Rightarrow> 's world
      \<Rightarrow> ((py_exn + string option list \<times> (string option \<times> errmsg option) list) \<times> 's world) option"
where
  "delete_loop E n inst [] deleted failed w = Some (Inr (deleted, failed), w)"
| "delete_loop E n inst (snap # rest) deleted failed w =
     (let snap_name = o_name snap
      in case instance_snapshot_delete E n inst snap_name w of
           None \<Rightarrow> None
         | Some (Inl x, w1) \<Rightarrow> Some (Inl x, w1)
         | Some (Inr delete_result, w1) \<Rightarrow>
             if m_success delete_result then
               delete_loop E n inst rest (deleted @ [snap_name]) failed w1
             else
               delete_loop E n inst rest deleted
                 (failed @ [(snap_name, m_error delete_result)]) w1)"

text \<open>
  The \<open>changes\<close> dict of the rotation: \<open>None\<close> is the empty dict, \<open>Some names\<close> is
  \<open>{"deleted": {"old": names, "new": None}}\<close>. Where the list endpoint answers with an
  object in place of a list, the comprehension iterates over its keys and \<open>s.get\<close> raises.
\<close>

definition instance_snapshots_rotated :: "'s env \<Rightarrow> (string \<Rightarrow> string \<Rightarrow> bool) \<Rightarrow> nat \<Rightarrow> bool
      \<Rightarrow> string \<Rightarrow> string \<Rightarrow> int \<Rightarrow> 's world
      \<Rightarrow> ((py_exn + string option list option ret) \<times> 's world) option" where
  "instance_snapshots_rotated E fnmatch n test inst pattern keep w =
     (let rname = inst @ ''_rotate_'' @ pattern
      in case instance_get E inst w of
           (Inl x, w1) \<Rightarrow> Some (Inl x, w1)
         | (Inr instance_info, w1) \<Rightarrow>
             if \<not> m_success instance_info then
               Some (Inr \<lparr>ret_name = rname, ret_result = Some False, ret_changes = None,
                          ret_comment = NotExist inst\<rparr>, w1)
             else
               (case instance_snapshot_list E inst 1 w1 of
                  (Inl x, w2) \<Rightarrow> Some (Inl x, w2)
                | (Inr snapshots_result, w2) \<Rightarrow>
                    if \<not> m_success snapshots_result then
                      Some (Inr \<lparr>ret_name = rname, ret_result = Some False, ret_changes = None,
                                 ret_comment = ListFailed (m_error snapshots_result)\<rparr>, w2)
                    else
                      (case m_snapshots snapshots_result of
                         Some (MObj ob) \<Rightarrow> Some (Inl AttributeError, w2)
                       | sn \<Rightarrow>
                           (let current_snapshots = (case sn of Some (MList xs) \<Rightarrow> xs | _ \<Rightarrow> []);
                                matching = matching_snapshots fnmatch pattern current_snapshots
                            in if int (length matching) \<le> keep then
                                 Some (Inr \<lparr>ret_name = rname, ret_result = Some True,
                                            ret_changes = None,
                                            ret_comment = RotationNotNeeded (length matching) keep\<rparr>,
                                       w2)
                               else
                                 (let dels = to_delete matching keep;
                                      to_delete_names = map o_name dels
                                  in if test then
                                       Some (Inr \<lparr>ret_name = rname, ret_result = None,
                                                  ret_changes = Some to_delete_names,
                                                  ret_comment = WouldDelete (length dels) pattern\<rparr>,
                                             w2)
                                     else
                                       (case delete_loop E n inst dels [] [] w2 of
                                          None \<Rightarrow> None
                                        | Some (Inl x, w3) \<Rightarrow> Some (Inl x, w3)
                                        | Some (Inr (deleted, failed), w3) \<Rightarrow>
                                            Some (Inr \<lparr>ret_name = rname,
                                                       ret_result = (if failed \<noteq> [] then Some False
                                                                     else Some True),
                                                       ret_changes = (if deleted \<noteq> [] then Some deleted
                                                                      else None),
                                                       ret_comment =
                                                         (if failed \<noteq> [] then FailedSome failed
                                                          else DeletedOld (length deleted) pattern)\<rparr>,
                                                  w3)))))))"

section \<open>Reading the trace\<close>

text \<open>
  The requests of a trace that can change the control plane: every request that is not a
  \<open>GET\<close>. \<open>issued c\<close> is the one such request a call of the client asks for itself.
\<close>

definition mutations :: "event list \<Rightarrow> request list" where
  "mutations tr =
     concat (map (\<lambda>e. case e of
                         Req q \<Rightarrow> (case q of Request m endpoint data params \<Rightarrow>
                                      if m = GET then [] else [q])
                       | _ \<Rightarrow> []) tr)"

definition issued :: "call \<Rightarrow> request list" where
  "issued c =
     (case c of
        SyncRequest m endpoint data params \<Rightarrow>
          (if m = GET then [] else [Request m endpoint data params])
      | _ \<Rightarrow> [])"

text \<open>The request \<open>instance_snapshot_delete\<close> makes for a snapshot.\<close>

definition delete_request :: "string \<Rightarrow> obj \<Rightarrow> request" where
  "delete_request inst s =
     Request DELETE (''/instances/'' @ quote inst @ ''/snapshots/'' @ quote (name_key s)) None []"





text \<open>
  The diff of the devices between two states of an instance, in the sense the
  specification gives the word: each device that changed, with its old and its new value
  (\<open>None\<close> for a device that is not there). This follows the wording of the
  specification; the state module computes what it reports with \<open>device_changes\<close>.
\<close>

definition applied_device_diff :: "obj \<Rightarrow> obj \<Rightarrow> (string \<rightharpoonup> device option \<times> device option)" where
  "applied_device_diff before after =
     (\<lambda>d. if or_empty (o_devices before) d = or_empty (o_devices after) d then None
          else Some (or_empty (o_devices before) d, or_empty (o_devices after) d))"

section \<open>Assumptions on the environment\<close>


text \<open>
  A response on which \<open>_sync_request\<close> would enter the wait protocol, and an environment
  whose answers to a poll (a \<open>GET\<close> without body or parameters) are never of that kind: a
  poll is answered with the state of the operation, not with another asynchronous job.
\<close>

definition is_async :: "response \<Rightarrow> bool" where
  "is_async r = (r_error_code r = Some 0 \<and> r_type r = Some ''async''
                 \<and> r_operation r \<noteq> None \<and> r_operation r \<noteq> Some [])"



section \<open>Example environments\<close>

text \<open>
  A control plane that answers the \<open>k\<close>-th request with \<open>script k\<close>, whatever is asked, and a
  clock that only moves when the client sleeps. The hidden state is the number of requests
  served and the time.
\<close>

definition script_env :: "(nat \<Rightarrow> outcome) \<Rightarrow> (nat \<times> int) env" where
  "script_env script =
     \<lparr>serve = (\<lambda>s q. (script (fst s), (Suc (fst s), snd s))),
      now = snd,
      sleep = (\<lambda>i s. (fst s, snd s + i))\<rparr>"


definition async_response :: "int option \<Rightarrow> response" where
  "async_response ec =
     \<lparr>r_success = None, r_error = None, r_error_code = ec, r_type = Some ''async'',
      r_operation = Some ''/1.0/operations/abc'', r_metadata = None\<rparr>"

definition world0 :: "(nat \<times> int) world" where
  "world0 = \<lparr>st = (0, 0), trace = []\<rparr>"


text \<open>
  A control plane that holds one resource: a \<open>GET\<close> answers with it, a \<open>PUT\<close> of an object
  stores that object, every answer is synchronous. The clock stands still.
\<close>

definition sync_ok :: "metadata option \<Rightarrow> response" where
  "sync_ok md = \<lparr>r_success = None, r_error = Some (Msg []), r_error_code = Some 0,
     r_type = Some ''sync'', r_operation = None, r_metadata = md\<rparr>"

definition store_env :: "obj env" where
  "store_env =
     \<lparr>serve = (\<lambda>s q. case q of Request m endpoint data params \<Rightarrow>
                 (case m of
                    GET \<Rightarrow> (Json (sync_ok (Some (MObj s))), s)
                  | PUT \<Rightarrow> (case data of
                             Some (BData (MObj ob)) \<Rightarrow> (Json (sync_ok None), ob)
                           | _ \<Rightarrow> (Json (sync_ok None), s))
                  | _ \<Rightarrow> (Json (sync_ok None), s))),
      now = (\<lambda>s. 0),
      sleep = (\<lambda>i s. s)\<rparr>"


definition cfg_bc :: cfg_items where
  "cfg_bc = [(''b'', VStr ''3''), (''c'', VStr ''4'')]"



text \<open>An instance with a storage volume attached as device \<open>data\<close>.\<close>

definition dev_vol :: device where
  "dev_vol = [''pool'' \<mapsto> ''default'', ''source'' \<mapsto> ''vol1'']"

definition obj_vol :: obj where
  "obj_vol = empty_obj\<lparr>o_name := Some ''c1'', o_config := Val Map.empty,
                        o_devices := Val [''data'' \<mapsto> dev_vol]\<rparr>"

text \<open>
  An instance whose \<open>root\<close> device has a path and a type, the same instance after a \<open>size\<close>
  has been merged into that device, and the desired device that names the \<open>size\<close> only.
\<close>

definition dev_root :: device where
  "dev_root = [''path'' \<mapsto> ''/'', ''type'' \<mapsto> ''disk'']"

definition dev_size :: device where
  "dev_size = [''size'' \<mapsto> ''20GB'']"

definition obj_root :: obj where
  "obj_root = empty_obj\<lparr>o_name := Some ''c1'', o_config := Val Map.empty,
                         o_devices := Val [''root'' \<mapsto> dev_root]\<rparr>"

definition obj_root_merged :: obj where
  "obj_root_merged = empty_obj\<lparr>o_name := Some ''c1'', o_config := Val Map.empty,
                                o_devices := Val [''root'' \<mapsto> dev_root ++ dev_size]\<rparr>"

text \<open>
  A matcher with the wildcards \<open>*\<close> and \<open>?\<close>, to run the rotation on an example;
  \<open>fnmatch\<close> also reads bracket expressions, which the example does not use.
\<close>

fun glob :: "string \<Rightarrow> string \<Rightarrow> bool" where
  "glob [] [] = True"
| "glob [] (c # cs) = False"
| "glob (p # ps) [] = (p = CHR ''*'' \<and> glob ps [])"
| "glob (p # ps) (c # cs) =
     (if p = CHR ''*'' then glob ps (c # cs) \<or> glob (p # ps) cs
      else (p = CHR ''?'' \<or> p = c) \<and> glob ps cs)"

definition fnmatch_glob :: "string \<Rightarrow> string \<Rightarrow> bool" where
  "fnmatch_glob name pattern = glob pattern name"

text \<open>
  Four snapshots, three of them daily, out of order; two snapshots taken half a second
  apart, \<open>daily-a\<close> first, with the timestamps as RFC 3339 writes them (no trailing zeros in
  the fraction); and a control plane that answers the instance, then the snapshot list,
  then \<open>third\<close>, then success.
\<close>

definition snap :: "string \<Rightarrow> string \<Rightarrow> obj" where
  "snap n t = empty_obj\<lparr>o_name := Some n, o_created_at := Some t\<rparr>"

definition snaps4 :: "obj list" where
  "snaps4 = [snap ''daily-3'' ''2024-01-03'', snap ''weekly-1'' ''2024-01-01'',
             snap ''daily-1'' ''2024-01-01'', snap ''daily-2'' ''2024-01-02'']"

definition snaps_frac :: "obj list" where
  "snaps_frac = [snap ''daily-a'' ''2024-01-01T00:00:00Z'',
                 snap ''daily-b'' ''2024-01-01T00:00:00.5Z'']"

definition rotate_env :: "obj list \<Rightarrow> outcome \<Rightarrow> (nat \<times> int) env" where
  "rotate_env snaps third =
     script_env (\<lambda>k. if k = 0 then Json (sync_ok (Some (MObj empty_obj)))
                     else if k = Suc 0 then Json (sync_ok (Some (MList snaps)))
                     else if k = Suc (Suc 0) then third
                     else Json (sync_ok None))"

section \<open>Properties of the API client\<close>

text \<open>The three bodies, as equations in the shape of the source.\<close>

lemma sync_request_0: "sync_request E 0 m endpoint data params w = None"
  by (simp add: sync_request_def)

lemma sync_request_Suc:
  "sync_request E (Suc n) m endpoint data params w =
     (case request E m endpoint data params w of
        (result, w1) \<Rightarrow>
          if r_error_code result \<noteq> Some 0 then Some (Inr result, w1)
          else if r_type result = Some ''async'' then
            (case r_operation result of
               None \<Rightarrow> Some (Inr result, w1)
             | Some op \<Rightarrow>
                 if op = [] then Some (Inr result, w1)
                 else wait_for_operation E n op 300 1 w1)
          else Some (Inr result, w1))"
  unfolding sync_request_def wait_for_operation_def by simp

lemma wait_for_operation_0: "wait_for_operation E 0 operation_url timeout interval w = None"
  by (simp add: wait_for_operation_def)




text \<open>
  C10. Whatever \<open>_request\<close> returned, if that dict has no \<open>error_code\<close> then \<open>_sync_request\<close>
  returns it unchanged, and the only thing the client did was that one request: the wait
  protocol was not entered, also for a dict of type \<open>async\<close> that names an operation.
\<close>

theorem sync_request_without_error_code:
  assumes "request E m endpoint data params w = (r, w1)"
      and "r_error_code r = None"
  shows "sync_request E (Suc n) m endpoint data params w = Some (Inr r, w1)
         \<and> trace w1 = trace w @ [Req (Request m endpoint data params)]"
  using assms by (auto simp: sync_request_Suc request_def split: prod.splits)

theorem sync_request_without_error_code_witness:
  "sync_request (script_env (\<lambda>k. Json (async_response None))) (Suc 5) POST ''/instances'' None []
      world0
   = Some (Inr (async_response None),
           \<lparr>st = (1, 0), trace = [Req (Request POST ''/instances'' None [])]\<rparr>)"
  using sync_request_without_error_code
    [of "script_env (\<lambda>k. Json (async_response None))" POST "''/instances''" None "[]" world0
        "async_response None" "\<lparr>st = (1, 0), trace = [Req (Request POST ''/instances'' None [])]\<rparr>" 5]
  by (simp add: request_def script_env_def async_response_def world0_def)




















section \<open>What the client sends\<close>

text \<open>
  Whatever the control plane answers, a call of the client adds to the trace no request
  other than \<open>GET\<close> polls, beyond the request it was asked to make.
\<close>

lemma mutations_append [simp]: "mutations (a @ b) = mutations a @ mutations b"
  by (simp add: mutations_def)

lemma mutations_Nil [simp]: "mutations [] = []"
  by (simp add: mutations_def)

lemma mutations_single [simp]:
  "mutations [Req (Request m ep d ps)] = (if m = GET then [] else [Request m ep d ps])"
  "mutations [Slept i] = []"
  "mutations [WaitEntered u] = []"
  by (simp_all add: mutations_def)

lemma request_trace: "trace (snd (request E m ep d ps w)) = trace w @ [Req (Request m ep d ps)]"
  by (simp add: request_def split: prod.splits)

lemma client_mutations:
  "client E n c w = Some (res, w') \<Longrightarrow> mutations (trace w') = mutations (trace w) @ issued c"
proof (induction n arbitrary: c w res w')
  case 0
  then show ?case by simp
next
  case (Suc n)
  show ?case
  proof (cases c)
    case (SyncRequest m ep d ps)
    obtain result w1 where rq: "request E m ep d ps w = (result, w1)"
      by (cases "request E m ep d ps w")
    have tr1: "mutations (trace w1) = mutations (trace w) @ issued c"
      using request_trace [of E m ep d ps w] rq SyncRequest by (simp add: issued_def)
    show ?thesis
    proof (cases "r_error_code result = Some 0 \<and> r_type result = Some ''async''
                  \<and> r_operation result \<noteq> None \<and> r_operation result \<noteq> Some []")
      case True
      then obtain op where op: "r_operation result = Some op" "op \<noteq> []" by auto
      with Suc.prems SyncRequest rq True
      have "client E n (WaitForOperation op 300 1) w1 = Some (res, w')" by simp
      from Suc.IH [OF this] tr1 show ?thesis by (simp add: issued_def)
    next
      case False
      with Suc.prems SyncRequest rq have "w' = w1"
        by (auto split: if_splits option.splits)
      with tr1 show ?thesis by simp
    qed
  next
    case (WaitForOperation url timeout interval)
    let ?w0 = "w\<lparr>trace := trace w @ [WaitEntered url]\<rparr>"
    show ?thesis
    proof (cases "prefix ''/1.0/operations/'' url")
      case True
      with Suc.prems WaitForOperation
      have "client E n (WaitLoop url (now E (st ?w0)) timeout interval) ?w0 = Some (res, w')"
        by (simp add: Let_def)
      from Suc.IH [OF this] WaitForOperation show ?thesis by (simp add: issued_def)
    next
      case False
      with Suc.prems WaitForOperation have "w' = ?w0" by (simp add: Let_def)
      with WaitForOperation show ?thesis by (simp add: issued_def)
    qed
  next
    case (WaitLoop url started timeout interval)
    show ?thesis
    proof (cases "now E (st w) - started > timeout")
      case True
      with Suc.prems WaitLoop show ?thesis by (simp add: issued_def)
    next
      case False
      let ?poll = "client E n (SyncRequest GET (py_replace url ''/1.0/'' ''/'') None []) w"
      from Suc.prems WaitLoop False obtain x w1 where poll: "?poll = Some (x, w1)"
        by (cases ?poll) auto
      from Suc.IH [OF poll] have tr1: "mutations (trace w1) = mutations (trace w)"
        by (simp add: issued_def)
      show ?thesis
      proof (cases "client E (Suc n) c w = client E n c (do_sleep E interval w1)")
        case True
        with Suc.prems have "client E n c (do_sleep E interval w1) = Some (res, w')" by simp
        from Suc.IH [OF this] tr1 WaitLoop show ?thesis
          by (simp add: do_sleep_def issued_def)
      next
        case False
        with Suc.prems WaitLoop poll \<open>\<not> now E (st w) - started > timeout\<close> have "w' = w1"
          by (auto simp: Let_def split: sum.splits if_splits option.splits metadata.splits)
        with tr1 WaitLoop show ?thesis by (simp add: issued_def)
      qed
    qed
  qed
qed

lemma sync_request_mutations:
  "sync_request E n m ep d ps w = Some (res, w')
   \<Longrightarrow> mutations (trace w') = mutations (trace w) @ (if m = GET then [] else [Request m ep d ps])"
  unfolding sync_request_def by (drule client_mutations) (simp add: issued_def)

section \<open>Merging configuration and devices\<close>







lemma merge_empty_device:
  assumes "o_devices ob = Val ds" and "ds d = Some dev"
  shows "merge_devices (Some [(d, Map.empty)]) (MObj ob) = Inr (MObj ob)"
proof -
  have "ds(d \<mapsto> dev) = ds" using assms(2) by (rule map_upd_triv)
  then show ?thesis
    using assms by (simp add: merge_devices_def truthy_def)
qed





lemma quote_c1: "quote ''c1'' = ''c1''"
  by (simp add: quote_def safe_char_def)

lemma store_get:
  "request store_env GET ep None [] \<lparr>st = s, trace = tr\<rparr>
   = (sync_ok (Some (MObj s)), \<lparr>st = s, trace = tr @ [Req (Request GET ep None [])]\<rparr>)"
  by (simp add: request_def store_env_def)

lemma store_put:
  "sync_request store_env (Suc n) PUT ep (Some (BData (MObj ob))) [] \<lparr>st = s, trace = tr\<rparr>
   = Some (Inr (sync_ok None),
           \<lparr>st = ob, trace = tr @ [Req (Request PUT ep (Some (BData (MObj ob))) [])]\<rparr>)"
  by (simp add: sync_request_Suc request_def store_env_def sync_ok_def)

lemma sync_ok_sel:
  "r_error_code (sync_ok md) = Some 0" "r_metadata (sync_ok md) = md"
  "r_error (sync_ok md) = Some (Msg [])"
  by (simp_all add: sync_ok_def)






section \<open>Detaching a device with an empty map\<close>

text \<open>
  What the device loop of \<open>instance_update\<close> computes, for a dict of desired devices: a
  device that is named gets the desired properties on top of those it had, a device that
  is not named stays as it was. No device is ever taken out.
\<close>

lemma merge_devices_loop_lookup:
  assumes "merge_devices_loop items ob = Inr ob'" and "o_devices ob = Val ds"
      and "distinct (map fst items)"
  shows "\<exists>ds'. o_devices ob' = Val ds'
           \<and> (\<forall>d. ds' d = (case map_of items d of
                              None \<Rightarrow> ds d
                            | Some conf \<Rightarrow> Some (case ds d of None \<Rightarrow> conf
                                                          | Some existing \<Rightarrow> existing ++ conf)))"
  using assms
proof (induction items arbitrary: ob ds)
  case Nil
  then show ?case by simp
next
  case (Cons x xs)
  obtain k conf where x: "x = (k, conf)" by (cases x)
  let ?v = "case ds k of None \<Rightarrow> conf | Some existing \<Rightarrow> existing ++ conf"
  let ?ob1 = "ob\<lparr>o_devices := Val (ds(k \<mapsto> ?v))\<rparr>"
  from Cons.prems(1,2) x have step: "merge_devices_loop xs ?ob1 = Inr ob'"
    by (auto split: option.splits)
  have d1: "o_devices ?ob1 = Val (ds(k \<mapsto> ?v))" by simp
  from Cons.prems(3) have dist: "distinct (map fst xs)" by simp
  from Cons.IH [OF step d1 dist] obtain ds' where
    ds': "o_devices ob' = Val ds'"
         "\<forall>d. ds' d = (case map_of xs d of
                          None \<Rightarrow> (ds(k \<mapsto> ?v)) d
                        | Some c \<Rightarrow> Some (case (ds(k \<mapsto> ?v)) d of None \<Rightarrow> c
                                                | Some existing \<Rightarrow> existing ++ c))"
    by blast
  have nk: "map_of xs k = None"
    using Cons.prems(3) x by (simp add: map_of_eq_None_iff)
  have "\<forall>d. ds' d = (case map_of (x # xs) d of
                              None \<Rightarrow> ds d
                            | Some c \<Rightarrow> Some (case ds d of None \<Rightarrow> c
                                                    | Some existing \<Rightarrow> existing ++ c))"
  proof
    fix d
    show "ds' d = (case map_of (x # xs) d of
                              None \<Rightarrow> ds d
                            | Some c \<Rightarrow> Some (case ds d of None \<Rightarrow> c
                                                    | Some existing \<Rightarrow> existing ++ c))"
    proof (cases "d = k")
      case True
      with ds'(2) nk x show ?thesis by (simp split: option.splits)
    next
      case False
      with ds'(2) x show ?thesis by (simp split: option.splits)
    qed
  qed
  with ds'(1) show ?case by blast
qed

lemma update_empty_device:
  "instance_update store_env (Suc 0) ''c1'' None (Some [(''data'', Map.empty)]) None
      \<lparr>st = obj_vol, trace = tr\<rparr>
   = Some (Inr (ok_message ''Instance c1 updated successfully''),
           \<lparr>st = obj_vol,
            trace = tr @ [Req (Request GET ''/instances/c1'' None []),
                          Req (Request PUT ''/instances/c1'' (Some (BData (MObj obj_vol))) [])]\<rparr>)"
proof -
  have m: "merge_devices (Some [(''data'', Map.empty)]) (MObj obj_vol) = Inr (MObj obj_vol)"
    by (rule merge_empty_device [where ds = "[''data'' \<mapsto> dev_vol]" and dev = dev_vol])
       (simp_all add: obj_vol_def)
  show ?thesis
    by (simp add: instance_update_def instance_get_def store_get store_put quote_c1
          sync_ok_sel update_fields_def merge_config_def m set_profiles_def truthy_def finish_def)
qed

text \<open>
  C6, at the input \<open>devices={'data': {}}\<close>. \<open>volume_detached\<close> on an instance that has the
  volume attached as device \<open>data\<close> calls \<open>instance_update\<close> with the empty map for that
  device. The merge \<open>existing.update({})\<close> changes nothing: the object that is \<open>PUT\<close> and
  stored is the instance as it was, device \<open>data\<close> included, while the state reports the
  volume as detached.
\<close>

theorem empty_device_map_is_kept:
  "volume_detached store_env (Suc 0) False ''vol1'' ''default'' ''c1'' (Some ''data'')
      \<lparr>st = obj_vol, trace = []\<rparr>
   = Some (Inr \<lparr>ret_name = ''vol1'', ret_result = Some True, ret_changes = Some dev_vol,
                ret_comment = Detached ''vol1'' ''c1''\<rparr>,
           \<lparr>st = obj_vol,
            trace = [Req (Request GET ''/instances/c1'' None []),
                     Req (Request GET ''/instances/c1'' None []),
                     Req (Request PUT ''/instances/c1'' (Some (BData (MObj obj_vol))) [])]\<rparr>)
   \<and> o_devices obj_vol = Val [''data'' \<mapsto> dev_vol]"
proof -
  have d: "o_devices obj_vol = Val [''data'' \<mapsto> dev_vol]" by (simp add: obj_vol_def)
  have p: "dev_vol ''pool'' = Some ''default''" "dev_vol ''source'' = Some ''vol1''"
    by (simp_all add: dev_vol_def)
  show ?thesis
    by (simp add: volume_detached_def instance_get_def store_get quote_c1 sync_ok_sel d p
          update_empty_device ok_message_def)
qed

text \<open>The same run, read off: the state says detached, the stored instance has the device.\<close>

theorem empty_device_map_is_kept_witness:
  "\<exists>r w'. volume_detached store_env (Suc 0) False ''vol1'' ''default'' ''c1'' (Some ''data'')
             \<lparr>st = obj_vol, trace = []\<rparr> = Some (Inr r, w')
          \<and> ret_comment r = Detached ''vol1'' ''c1''
          \<and> (\<exists>ds. o_devices (st w') = Val ds \<and> ds ''data'' = Some dev_vol)"
  using empty_device_map_is_kept by simp

section \<open>Exceptions\<close>

text \<open>
  C9, at a live instance whose dict has no \<open>config\<close> key. \<open>instance_update\<close> with a
  configuration subscripts \<open>instance_data['config']\<close> and raises \<open>KeyError\<close>; no result dict
  is returned and no \<open>PUT\<close> is sent.
\<close>

theorem instance_update_raises_on_missing_config:
  "instance_update store_env (Suc 0) ''c1'' (Some cfg_bc) None None
      \<lparr>st = empty_obj\<lparr>o_name := Some ''c1''\<rparr>, trace = []\<rparr>
   = Some (Inl KeyError,
           \<lparr>st = empty_obj\<lparr>o_name := Some ''c1''\<rparr>,
            trace = [Req (Request GET ''/instances/c1'' None [])]\<rparr>)"
  by (simp add: instance_update_def instance_get_def store_get quote_c1 sync_ok_sel
        update_fields_def merge_config_def truthy_def cfg_bc_def empty_obj_def)

section \<open>Running \<open>instance_present\<close> twice\<close>

lemma dev_root_ne: "dev_root \<noteq> dev_size"
proof
  assume "dev_root = dev_size"
  then have "dev_root ''path'' = dev_size ''path''" by simp
  then show False by (simp add: dev_root_def dev_size_def)
qed

lemma dev_merged_ne: "dev_root ++ dev_size \<noteq> dev_size"
proof
  assume "dev_root ++ dev_size = dev_size"
  then have "(dev_root ++ dev_size) ''path'' = dev_size ''path''" by simp
  then show False by (simp add: dev_root_def dev_size_def map_add_def)
qed

lemma dev_merged_twice: "(dev_root ++ dev_size) ++ dev_size = dev_root ++ dev_size"
  by (rule ext) (simp add: map_add_def split: option.splits)

lemma first_run:
  "instance_present store_env (Suc 0) False ''c1'' None ''container'' None
      (Some [(''root'', dev_size)]) None False \<lparr>st = obj_root, trace = []\<rparr>
   = Some (Inr \<lparr>ret_name = ''c1'', ret_result = Some True,
                ret_changes = no_changes\<lparr>ch_devices :=
                                Some [''root'' \<mapsto> (Some dev_root, dev_size)]\<rparr>,
                ret_comment = Updated ''c1''\<rparr>,
           \<lparr>st = obj_root_merged,
            trace = [Req (Request GET ''/instances/c1'' None []),
                     Req (Request GET ''/instances/c1'' None []),
                     Req (Request PUT ''/instances/c1'' (Some (BData (MObj obj_root_merged))) [])]\<rparr>)"
  by (simp add: instance_present_def instance_update_def instance_get_def store_get store_put
        quote_c1 sync_ok_sel present_changes_def device_changes_def or_empty_def truthy_def
        update_fields_def merge_config_def merge_devices_def set_profiles_def finish_def
        ok_message_def no_changes_def obj_root_def obj_root_merged_def empty_obj_def dev_root_ne)

lemma second_run:
  "instance_present store_env (Suc 0) False ''c1'' None ''container'' None
      (Some [(''root'', dev_size)]) None False \<lparr>st = obj_root_merged, trace = tr\<rparr>
   = Some (Inr \<lparr>ret_name = ''c1'', ret_result = Some True,
                ret_changes = no_changes\<lparr>ch_devices :=
                                Some [''root'' \<mapsto> (Some (dev_root ++ dev_size), dev_size)]\<rparr>,
                ret_comment = Updated ''c1''\<rparr>,
           \<lparr>st = obj_root_merged,
            trace = tr @ [Req (Request GET ''/instances/c1'' None []),
                     Req (Request GET ''/instances/c1'' None []),
                     Req (Request PUT ''/instances/c1'' (Some (BData (MObj obj_root_merged))) [])]\<rparr>)"
  by (simp add: instance_present_def instance_update_def instance_get_def store_get store_put
        quote_c1 sync_ok_sel present_changes_def device_changes_def or_empty_def truthy_def
        update_fields_def merge_config_def merge_devices_def set_profiles_def finish_def
        ok_message_def no_changes_def obj_root_merged_def empty_obj_def dev_merged_ne
        dev_merged_twice)

text \<open>
  C1, at a desired device that names only some of the properties of the live device. The
  first run merges \<open>size\<close> into device \<open>root\<close> and reports the change. The second run, on
  the state the first one left, compares the whole live device with the desired map,
  finds them different again, sends the same \<open>PUT\<close> again and reports a change.
\<close>

theorem second_converge_reports_changes:
  "instance_present store_env (Suc 0) False ''c1'' None ''container'' None
      (Some [(''root'', dev_size)]) None False \<lparr>st = obj_root, trace = []\<rparr>
   = Some (Inr \<lparr>ret_name = ''c1'', ret_result = Some True,
                ret_changes = no_changes\<lparr>ch_devices :=
                                Some [''root'' \<mapsto> (Some dev_root, dev_size)]\<rparr>,
                ret_comment = Updated ''c1''\<rparr>,
           \<lparr>st = obj_root_merged,
            trace = [Req (Request GET ''/instances/c1'' None []),
                     Req (Request GET ''/instances/c1'' None []),
                     Req (Request PUT ''/instances/c1'' (Some (BData (MObj obj_root_merged))) [])]\<rparr>)
   \<and> instance_present store_env (Suc 0) False ''c1'' None ''container'' None
      (Some [(''root'', dev_size)]) None False
      \<lparr>st = obj_root_merged,
       trace = [Req (Request GET ''/instances/c1'' None []),
                Req (Request GET ''/instances/c1'' None []),
                Req (Request PUT ''/instances/c1'' (Some (BData (MObj obj_root_merged))) [])]\<rparr>
   = Some (Inr \<lparr>ret_name = ''c1'', ret_result = Some True,
                ret_changes = no_changes\<lparr>ch_devices :=
                                Some [''root'' \<mapsto> (Some (dev_root ++ dev_size), dev_size)]\<rparr>,
                ret_comment = Updated ''c1''\<rparr>,
           \<lparr>st = obj_root_merged,
            trace = [Req (Request GET ''/instances/c1'' None []),
                     Req (Request GET ''/instances/c1'' None []),
                     Req (Request PUT ''/instances/c1'' (Some (BData (MObj obj_root_merged))) []),
                     Req (Request GET ''/instances/c1'' None []),
                     Req (Request GET ''/instances/c1'' None []),
                     Req (Request PUT ''/instances/c1'' (Some (BData (MObj obj_root_merged))) [])]\<rparr>)
   \<and> no_changes\<lparr>ch_devices := Some [''root'' \<mapsto> (Some (dev_root ++ dev_size), dev_size)]\<rparr>
       \<noteq> no_changes"
  by (simp add: first_run second_run no_changes_def)

section \<open>Dry run\<close>

lemma instance_get_trace:
  "instance_get E name w = (x, w1)
   \<Longrightarrow> trace w1 = trace w @ [Req (Request GET (''/instances/'' @ quote name) None [])]"
  using request_trace [of E GET "''/instances/'' @ quote name" None "[]" w]
  by (auto simp: instance_get_def split: prod.splits if_splits option.splits)

lemma dry_run_sends_nothing:
  "\<exists>res w'. instance_present E n True name source instance_type config devices profiles
               ephemeral w = Some (res, w')
            \<and> trace w' = trace w @ [Req (Request GET (''/instances/'' @ quote name) None [])]
            \<and> mutations (trace w') = mutations (trace w)"
proof -
  obtain x w1 where g: "instance_get E name w = (x, w1)" by (cases "instance_get E name w")
  from instance_get_trace [OF g]
  have t: "trace w1 = trace w @ [Req (Request GET (''/instances/'' @ quote name) None [])]" .
  then have m: "mutations (trace w1) = mutations (trace w)" by simp
  have "\<exists>res. instance_present E n True name source instance_type config devices profiles
               ephemeral w = Some (res, w1)"
    using g by (auto simp: instance_present_def Let_def split: sum.splits)
  with t m show ?thesis by blast
qed

lemma root_get:
  "instance_get store_env ''c1'' \<lparr>st = s, trace = tr\<rparr>
   = (Inr \<lparr>m_success = True, m_error = None, m_message = None,
            m_instance = Some (MObj s), m_snapshots = None\<rparr>,
      \<lparr>st = s, trace = tr @ [Req (Request GET ''/instances/c1'' None [])]\<rparr>)"
  by (simp add: instance_get_def store_get quote_c1 sync_ok_sel)

lemma root_dry:
  "instance_present store_env (Suc 0) True ''c1'' None ''container'' None
      (Some [(''root'', dev_size)]) None False \<lparr>st = obj_root, trace = []\<rparr>
   = Some (Inr \<lparr>ret_name = ''c1'', ret_result = None,
                ret_changes = no_changes\<lparr>ch_devices :=
                                Some [''root'' \<mapsto> (Some dev_root, dev_size)]\<rparr>,
                ret_comment = WouldUpdate ''c1''\<rparr>,
           \<lparr>st = obj_root, trace = [Req (Request GET ''/instances/c1'' None [])]\<rparr>)"
  by (simp add: instance_present_def root_get present_changes_def device_changes_def
        or_empty_def truthy_def no_changes_def obj_root_def dev_root_ne)

lemma dev_merged_ne_root: "dev_root \<noteq> dev_root ++ dev_size"
proof
  assume "dev_root = dev_root ++ dev_size"
  then have "dev_root ''size'' = (dev_root ++ dev_size) ''size''" by simp
  then show False by (simp add: dev_root_def dev_size_def map_add_def)
qed

text \<open>
  C2, at a desired device that names only some of the properties of the live device. The
  dry run sends nothing but the \<open>GET\<close> and reports that device \<open>root\<close> would go from
  \<open>{path, type}\<close> to \<open>{size}\<close>. The real run on the same live state sends a \<open>PUT\<close> in which
  \<open>root\<close> is \<open>{path, type, size}\<close>, and that is what the control plane holds afterwards: the
  diff applied to \<open>root\<close> is not the diff the dry run reported.
\<close>

theorem dry_run_diff_is_not_applied:
  "instance_present store_env (Suc 0) True ''c1'' None ''container'' None
      (Some [(''root'', dev_size)]) None False \<lparr>st = obj_root, trace = []\<rparr>
   = Some (Inr \<lparr>ret_name = ''c1'', ret_result = None,
                ret_changes = no_changes\<lparr>ch_devices :=
                                Some [''root'' \<mapsto> (Some dev_root, dev_size)]\<rparr>,
                ret_comment = WouldUpdate ''c1''\<rparr>,
           \<lparr>st = obj_root, trace = [Req (Request GET ''/instances/c1'' None [])]\<rparr>)
   \<and> instance_present store_env (Suc 0) False ''c1'' None ''container'' None
      (Some [(''root'', dev_size)]) None False \<lparr>st = obj_root, trace = []\<rparr>
   = Some (Inr \<lparr>ret_name = ''c1'', ret_result = Some True,
                ret_changes = no_changes\<lparr>ch_devices :=
                                Some [''root'' \<mapsto> (Some dev_root, dev_size)]\<rparr>,
                ret_comment = Updated ''c1''\<rparr>,
           \<lparr>st = obj_root_merged,
            trace = [Req (Request GET ''/instances/c1'' None []),
                     Req (Request GET ''/instances/c1'' None []),
                     Req (Request PUT ''/instances/c1'' (Some (BData (MObj obj_root_merged))) [])]\<rparr>)
   \<and> applied_device_diff obj_root obj_root_merged ''root''
       = Some (Some dev_root, Some (dev_root ++ dev_size))
   \<and> dev_root ++ dev_size \<noteq> dev_size"
proof -
  have "applied_device_diff obj_root obj_root_merged ''root''
        = Some (Some dev_root, Some (dev_root ++ dev_size))"
    by (simp add: applied_device_diff_def or_empty_def obj_root_def obj_root_merged_def
          dev_merged_ne_root)
  with root_dry first_run dev_merged_ne show ?thesis by blast
qed

section \<open>Properties of the rotation\<close>

lemma matching_sorted: "sorted (map created_key (matching_snapshots fnmatch pattern snaps))"
  by (simp add: matching_snapshots_def)

lemma matching_mset:
  "mset (matching_snapshots fnmatch pattern snaps)
   = mset (filter (\<lambda>s. fnmatch (name_key s) pattern) snaps)"
  by (simp add: matching_snapshots_def)

lemma matching_stable:
  "filter (\<lambda>s. created_key s = k) (matching_snapshots fnmatch pattern snaps)
   = filter (\<lambda>s. created_key s = k) (filter (\<lambda>s. fnmatch (name_key s) pattern) snaps)"
  by (simp only: matching_snapshots_def sort_key_stable)

lemma to_delete_take:
  assumes "0 \<le> keep" and "keep < int (length m)"
  shows "to_delete m keep = take (length m - nat keep) m"
proof -
  have "nat (int (length m) - keep) = length m - nat keep"
    using assms by linarith
  then show ?thesis
    using assms by (simp add: to_delete_def py_upto_def)
qed

lemma sorted_take_drop:
  assumes "sorted (map f xs)"
  shows "\<forall>d \<in> set (take k xs). \<forall>r \<in> set (drop k xs). f d \<le> f r"
proof -
  have "sorted (map f (take k xs) @ map f (drop k xs))"
    using assms by (simp only: map_append [symmetric] append_take_drop_id)
  then show ?thesis by (auto simp: sorted_append)
qed

lemma delete_loop_requests:
  "delete_loop E n inst dels deleted failed w = Some (Inr (deleted', failed'), w')
   \<Longrightarrow> mutations (trace w') = mutations (trace w) @ map (delete_request inst) dels
       \<and> mset (deleted' @ map fst failed')
          = mset (deleted @ map fst failed) + mset (map o_name dels)
       \<and> (failed' = [] \<longrightarrow> failed = [] \<and> deleted' = deleted @ map o_name dels)"
proof (induction dels arbitrary: deleted failed w)
  case Nil
  then show ?case by simp
next
  case (Cons s rest)
  from Cons.prems obtain sn where sn: "o_name s = Some sn"
    by (cases "o_name s") (auto simp: instance_snapshot_delete_def)
  let ?ep = "''/instances/'' @ quote inst @ ''/snapshots/'' @ quote sn"
  let ?del = "sync_request E n DELETE ?ep None [] w"
  from Cons.prems sn obtain result w1 where d: "?del = Some (Inr result, w1)"
    by (cases ?del) (auto simp: instance_snapshot_delete_def Let_def split: sum.splits)
  from sync_request_mutations [OF d]
  have m1: "mutations (trace w1) = mutations (trace w) @ [delete_request inst s]"
    by (simp add: delete_request_def name_key_def sn)
  from Cons.prems sn d obtain dr where
    dr: "finish result (''Snapshot '' @ sn @ '' of instance '' @ inst @ '' deleted successfully'')
         = Inr dr"
    by (cases "finish result (''Snapshot '' @ sn @ '' of instance '' @ inst
                 @ '' deleted successfully'')")
       (auto simp: instance_snapshot_delete_def Let_def)
  show ?case
  proof (cases "m_success dr")
    case True
    with Cons.prems sn d dr
    have "delete_loop E n inst rest (deleted @ [Some sn]) failed w1
          = Some (Inr (deleted', failed'), w')"
      by (simp add: instance_snapshot_delete_def Let_def)
    from Cons.IH [OF this] m1 sn show ?thesis by auto
  next
    case False
    with Cons.prems sn d dr
    have "delete_loop E n inst rest deleted (failed @ [(Some sn, m_error dr)]) w1
          = Some (Inr (deleted', failed'), w')"
      by (simp add: instance_snapshot_delete_def Let_def)
    from Cons.IH [OF this] m1 sn show ?thesis by auto
  qed
qed

lemma snapshot_list_trace:
  "instance_snapshot_list E inst rec w = (x, w1) \<Longrightarrow> mutations (trace w1) = mutations (trace w)"
  using request_trace [of E GET "''/instances/'' @ quote inst @ ''/snapshots''" None
                          "[(''recursion'', rec)]" w]
  by (auto simp: instance_snapshot_list_def split: prod.splits if_splits option.splits)

lemma rotated_unfold:
  assumes "instance_get E inst w = (Inr info, w1)" and "m_success info"
      and "instance_snapshot_list E inst 1 w1 = (Inr sr, w2)" and "m_success sr"
      and "m_snapshots sr = Some (MList snaps)"
  shows "instance_snapshots_rotated E fnmatch n test inst pattern keep w =
     (let matching = matching_snapshots fnmatch pattern snaps
      in if int (length matching) \<le> keep then
           Some (Inr \<lparr>ret_name = inst @ ''_rotate_'' @ pattern, ret_result = Some True,
                      ret_changes = None,
                      ret_comment = RotationNotNeeded (length matching) keep\<rparr>, w2)
         else if test then
           Some (Inr \<lparr>ret_name = inst @ ''_rotate_'' @ pattern, ret_result = None,
                      ret_changes = Some (map o_name (to_delete matching keep)),
                      ret_comment = WouldDelete (length (to_delete matching keep)) pattern\<rparr>, w2)
         else
           (case delete_loop E n inst (to_delete matching keep) [] [] w2 of
              None \<Rightarrow> None
            | Some (Inl x, w3) \<Rightarrow> Some (Inl x, w3)
            | Some (Inr (deleted, failed), w3) \<Rightarrow>
                Some (Inr \<lparr>ret_name = inst @ ''_rotate_'' @ pattern,
                           ret_result = (if failed \<noteq> [] then Some False else Some True),
                           ret_changes = (if deleted \<noteq> [] then Some deleted else None),
                           ret_comment = (if failed \<noteq> [] then FailedSome failed
                                          else DeletedOld (length deleted) pattern)\<rparr>, w3)))"
  using assms by (simp add: instance_snapshots_rotated_def Let_def del: append.simps)

lemma rotated_real:
  assumes "instance_get E inst w = (Inr info, w1)" and "m_success info"
      and "instance_snapshot_list E inst 1 w1 = (Inr sr, w2)" and "m_success sr"
      and "m_snapshots sr = Some (MList snaps)"
      and "keep < int (length (matching_snapshots fnmatch pattern snaps))"
      and "instance_snapshots_rotated E fnmatch n False inst pattern keep w = Some (Inr ret, w')"
  shows "\<exists>deleted failed.
           delete_loop E n inst (to_delete (matching_snapshots fnmatch pattern snaps) keep) [] [] w2
             = Some (Inr (deleted, failed), w')
           \<and> ret_result ret = (if failed \<noteq> [] then Some False else Some True)
           \<and> ret_changes ret = (if deleted \<noteq> [] then Some deleted else None)
           \<and> ret_comment ret = (if failed \<noteq> [] then FailedSome failed
                                else DeletedOld (length deleted) pattern)"
proof -
  let ?dl = "delete_loop E n inst (to_delete (matching_snapshots fnmatch pattern snaps) keep)
               [] [] w2"
  from assms(7) have u: "(case ?dl of
              None \<Rightarrow> None
            | Some (Inl x, w3) \<Rightarrow> Some (Inl x, w3)
            | Some (Inr (deleted, failed), w3) \<Rightarrow>
                Some (Inr \<lparr>ret_name = inst @ ''_rotate_'' @ pattern,
                           ret_result = (if failed \<noteq> [] then Some False else Some True),
                           ret_changes = (if deleted \<noteq> [] then Some deleted else None),
                           ret_comment = (if failed \<noteq> [] then FailedSome failed
                                          else DeletedOld (length deleted) pattern)\<rparr>, w3))
           = Some (Inr ret, w')"
    unfolding rotated_unfold [OF assms(1-5)] using assms(6) by (simp add: Let_def)
  then obtain deleted failed where "?dl = Some (Inr (deleted, failed), w')"
    by (cases ?dl) (auto split: sum.splits prod.splits)
  with u show ?thesis by auto
qed

lemma rotated_mutations:
  assumes "instance_get E inst w = (Inr info, w1)" and "m_success info"
      and "instance_snapshot_list E inst 1 w1 = (Inr sr, w2)" and "m_success sr"
      and "m_snapshots sr = Some (MList snaps)"
      and "keep < int (length (matching_snapshots fnmatch pattern snaps))"
      and "instance_snapshots_rotated E fnmatch n False inst pattern keep w = Some (Inr ret, w')"
  shows "mutations (trace w') = mutations (trace w)
           @ map (delete_request inst) (to_delete (matching_snapshots fnmatch pattern snaps) keep)"
proof -
  from rotated_real [OF assms] obtain deleted failed where
    "delete_loop E n inst (to_delete (matching_snapshots fnmatch pattern snaps) keep) [] [] w2
       = Some (Inr (deleted, failed), w')" by blast
  from delete_loop_requests [OF this]
  have "mutations (trace w') = mutations (trace w2)
           @ map (delete_request inst) (to_delete (matching_snapshots fnmatch pattern snaps) keep)"
    by blast
  moreover have "mutations (trace w2) = mutations (trace w)"
    using snapshot_list_trace [OF assms(3)] instance_get_trace [OF assms(1)] by simp
  ultimately show ?thesis by simp
qed

lemma rotated_not_needed:
  assumes "instance_get E inst w = (Inr info, w1)" and "m_success info"
      and "instance_snapshot_list E inst 1 w1 = (Inr sr, w2)" and "m_success sr"
      and "m_snapshots sr = Some (MList snaps)"
      and "int (length (matching_snapshots fnmatch pattern snaps)) \<le> keep"
  shows "instance_snapshots_rotated E fnmatch n test inst pattern keep w
         = Some (Inr \<lparr>ret_name = inst @ ''_rotate_'' @ pattern, ret_result = Some True,
                      ret_changes = None,
                      ret_comment = RotationNotNeeded
                        (length (matching_snapshots fnmatch pattern snaps)) keep\<rparr>, w2)
         \<and> mutations (trace w2) = mutations (trace w)"
  using rotated_unfold [OF assms(1-5)] assms(6)
        snapshot_list_trace [OF assms(3)] instance_get_trace [OF assms(1)]
  by (simp add: Let_def)

text \<open>
  What the rotation selects, in terms of the order of the \<open>created_at\<close> strings. Where the
  instance and its snapshot list are fetched and the rotation returns a result, for a
  retention count \<open>keep\<close> that is not negative: the matches \<open>M\<close> are the snapshots whose name
  matches the pattern, in ascending order of the \<open>created_at\<close> string, snapshots of equal
  \<open>created_at\<close> in their order in the list. With at most \<open>keep\<close> matches no request other
  than the two \<open>GET\<close>s is sent and no change is reported. With more, the requests sent are
  the \<open>DELETE\<close>s of the first \<open>length M - keep\<close> matches, in that order, and a dry run
  reports their names. The matches not selected are the last \<open>keep\<close> of \<open>M\<close>: at most \<open>keep\<close>
  of them, none with a \<open>created_at\<close> string below that of a selected one.
\<close>

lemma rotation_deletes_least_keys:
  assumes "instance_get E inst w = (Inr info, w1)" and "m_success info"
      and "instance_snapshot_list E inst 1 w1 = (Inr sr, w2)" and "m_success sr"
      and "m_snapshots sr = Some (MList snaps)"
      and "0 \<le> keep"
      and "instance_snapshots_rotated E fnmatch n False inst pattern keep w = Some (Inr ret, w')"
  shows "let M = matching_snapshots fnmatch pattern snaps; k = length M - nat keep in
      mset M = mset (filter (\<lambda>s. fnmatch (name_key s) pattern) snaps)
    \<and> sorted (map created_key M)
    \<and> (\<forall>t. filter (\<lambda>s. created_key s = t) M
            = filter (\<lambda>s. created_key s = t) (filter (\<lambda>s. fnmatch (name_key s) pattern) snaps))
    \<and> (int (length M) \<le> keep \<longrightarrow>
          mutations (trace w') = mutations (trace w) \<and> ret_changes ret = None)
    \<and> (keep < int (length M) \<longrightarrow>
          mutations (trace w') = mutations (trace w) @ map (delete_request inst) (take k M)
          \<and> length (drop k M) = nat keep
          \<and> (\<exists>r2. instance_snapshots_rotated E fnmatch n True inst pattern keep w
                     = Some (Inr r2, w2)
                   \<and> ret_changes r2 = Some (map o_name (take k M))))
    \<and> length (drop k M) \<le> nat keep
    \<and> (\<forall>d \<in> set (take k M). \<forall>r \<in> set (drop k M). created_key d \<le> created_key r)"
proof -
  let ?M = "matching_snapshots fnmatch pattern snaps"
  let ?k = "length ?M - nat keep"
  note h = assms(1-5)
  have a: "mset ?M = mset (filter (\<lambda>s. fnmatch (name_key s) pattern) snaps)"
    by (rule matching_mset)
  have b: "sorted (map created_key ?M)" by (rule matching_sorted)
  have c: "\<forall>t. filter (\<lambda>s. created_key s = t) ?M
            = filter (\<lambda>s. created_key s = t) (filter (\<lambda>s. fnmatch (name_key s) pattern) snaps)"
    using matching_stable by blast
  have d: "int (length ?M) \<le> keep \<longrightarrow>
          mutations (trace w') = mutations (trace w) \<and> ret_changes ret = None"
  proof
    assume le: "int (length ?M) \<le> keep"
    from rotated_not_needed [OF h le, of n False] assms(7) show
      "mutations (trace w') = mutations (trace w) \<and> ret_changes ret = None" by auto
  qed
  have e: "keep < int (length ?M) \<longrightarrow>
          mutations (trace w') = mutations (trace w) @ map (delete_request inst) (take ?k ?M)
          \<and> length (drop ?k ?M) = nat keep
          \<and> (\<exists>r2. instance_snapshots_rotated E fnmatch n True inst pattern keep w
                     = Some (Inr r2, w2)
                   \<and> ret_changes r2 = Some (map o_name (take ?k ?M)))"
  proof
    assume lt: "keep < int (length ?M)"
    have td: "to_delete ?M keep = take ?k ?M"
      by (rule to_delete_take [OF assms(6) lt])
    have "mutations (trace w') = mutations (trace w) @ map (delete_request inst) (take ?k ?M)"
      using rotated_mutations [OF h lt assms(7)] td by simp
    moreover have "length (drop ?k ?M) = nat keep"
      using lt assms(6) by simp
    moreover have "\<exists>r2. instance_snapshots_rotated E fnmatch n True inst pattern keep w
                     = Some (Inr r2, w2)
                   \<and> ret_changes r2 = Some (map o_name (take ?k ?M))"
      using rotated_unfold [OF h, of fnmatch n True pattern keep] lt td by (simp add: Let_def)
    ultimately show "mutations (trace w') = mutations (trace w)
            @ map (delete_request inst) (take ?k ?M)
          \<and> length (drop ?k ?M) = nat keep
          \<and> (\<exists>r2. instance_snapshots_rotated E fnmatch n True inst pattern keep w
                     = Some (Inr r2, w2)
                   \<and> ret_changes r2 = Some (map o_name (take ?k ?M)))" by blast
  qed
  have f: "length (drop ?k ?M) \<le> nat keep" by simp
  have g: "\<forall>d \<in> set (take ?k ?M). \<forall>r \<in> set (drop ?k ?M). created_key d \<le> created_key r"
    by (rule sorted_take_drop [OF b])
  from a b c d e f g show ?thesis unfolding Let_def by blast
qed





lemma quote_web: "quote ''web'' = ''web''"
  by (simp add: quote_def safe_char_def)

lemma quote_daily:
  "quote ''daily-1'' = ''daily-1''" "quote ''daily-2'' = ''daily-2''"
  by (simp_all add: quote_def safe_char_def)

lemma rot_get:
  "instance_get (rotate_env snaps third) ''web'' world0
   = (Inr \<lparr>m_success = True, m_error = None, m_message = None,
            m_instance = Some (MObj empty_obj), m_snapshots = None\<rparr>,
      \<lparr>st = (Suc 0, 0), trace = [Req (Request GET ''/instances/web'' None [])]\<rparr>)"
  by (simp add: instance_get_def request_def rotate_env_def script_env_def world0_def quote_web
        sync_ok_def)

lemma rot_list:
  "instance_snapshot_list (rotate_env snaps third) ''web'' 1 \<lparr>st = (Suc 0, 0), trace = tr\<rparr>
   = (Inr \<lparr>m_success = True, m_error = None, m_message = None,
            m_instance = None, m_snapshots = Some (MList snaps)\<rparr>,
      \<lparr>st = (Suc (Suc 0), 0),
       trace = tr @ [Req (Request GET ''/instances/web/snapshots'' None [(''recursion'', 1)])]\<rparr>)"
  by (simp add: instance_snapshot_list_def request_def rotate_env_def script_env_def quote_web
        sync_ok_def)

lemma rot_match:
  "matching_snapshots fnmatch_glob ''daily-*'' snaps4
   = [snap ''daily-1'' ''2024-01-01'', snap ''daily-2'' ''2024-01-02'',
      snap ''daily-3'' ''2024-01-03'']"
  by (simp add: matching_snapshots_def fnmatch_glob_def snaps4_def snap_def name_key_def
        created_key_def)

lemma rot_delete_third:
  "instance_snapshot_delete (rotate_env snaps third) (Suc n) ''web'' (Some sn)
      \<lparr>st = (Suc (Suc 0), 0), trace = tr\<rparr>
   = Some (finish (case third of Json r \<Rightarrow> r
                     | HttpError status e \<Rightarrow> error_dict e (Some status)
                     | TransportError e \<Rightarrow> error_dict e None
                     | NotJson e \<Rightarrow> error_dict e None)
             (''Snapshot '' @ sn @ '' of instance web deleted successfully''),
           \<lparr>st = (Suc (Suc (Suc 0)), 0),
            trace = tr @ [Req (Request DELETE (''/instances/web/snapshots/'' @ quote sn) None [])]\<rparr>)"
  if "\<And>r. third = Json r \<Longrightarrow> \<not> is_async r"
  using that
  by (cases third)
     (auto simp: instance_snapshot_delete_def sync_request_Suc request_def rotate_env_def
        script_env_def quote_web is_async_def error_dict_def split: option.splits)

lemma rot_info:
  "m_success \<lparr>m_success = True, m_error = None, m_message = None,
            m_instance = mi, m_snapshots = ms\<rparr>"
  "m_snapshots \<lparr>m_success = True, m_error = None, m_message = None,
            m_instance = mi, m_snapshots = ms\<rparr> = ms"
  by simp_all

lemma run_keep2:
  "instance_snapshots_rotated (rotate_env snaps4 (Json (sync_ok None))) fnmatch_glob (Suc 0) False
      ''web'' ''daily-*'' 2 world0
   = Some (Inr \<lparr>ret_name = ''web_rotate_daily-*'', ret_result = Some True,
                ret_changes = Some [Some ''daily-1''],
                ret_comment = DeletedOld 1 ''daily-*''\<rparr>,
           \<lparr>st = (Suc (Suc (Suc 0)), 0),
            trace = [Req (Request GET ''/instances/web'' None []),
                     Req (Request GET ''/instances/web/snapshots'' None [(''recursion'', 1)]),
                     Req (Request DELETE ''/instances/web/snapshots/daily-1'' None [])]\<rparr>)"
proof -
  have na: "\<And>r. Json (sync_ok None) = Json r \<Longrightarrow> \<not> is_async r"
    by (auto simp: is_async_def sync_ok_def)
  show ?thesis
    unfolding rotated_unfold [OF rot_get rot_info(1) rot_list rot_info(1) rot_info(2)]
    by (simp add: rot_match to_delete_def py_upto_def rot_delete_third [OF na] finish_def
          sync_ok_sel ok_message_def snap_def quote_daily)
qed

lemma rotation_deletes_least_keys_example:
  "mutations [Req (Request GET ''/instances/web'' None []),
              Req (Request GET ''/instances/web/snapshots'' None [(''recursion'', 1)]),
              Req (Request DELETE ''/instances/web/snapshots/daily-1'' None [])]
   = map (delete_request ''web'') [snap ''daily-1'' ''2024-01-01'']
   \<and> drop 1 (matching_snapshots fnmatch_glob ''daily-*'' snaps4)
     = [snap ''daily-2'' ''2024-01-02'', snap ''daily-3'' ''2024-01-03'']
   \<and> sorted (map created_key (matching_snapshots fnmatch_glob ''daily-*'' snaps4))"
proof -
  note t = rotation_deletes_least_keys [OF rot_get rot_info(1) rot_list rot_info(1) rot_info(2) _
      run_keep2]
  have k: "(0::int) \<le> 2" by simp
  have len: "(2::int) < int (length (matching_snapshots fnmatch_glob ''daily-*'' snaps4))"
    by (simp add: rot_match)
  from t [OF k] len show ?thesis
    by (simp add: Let_def rot_match world0_def)
qed



lemma quote_daily_ab:
  "quote ''daily-a'' = ''daily-a''" "quote ''daily-b'' = ''daily-b''"
  by (simp_all add: quote_def safe_char_def)

lemma frac_match:
  "matching_snapshots fnmatch_glob ''daily-*'' snaps_frac
   = [snap ''daily-b'' ''2024-01-01T00:00:00.5Z'', snap ''daily-a'' ''2024-01-01T00:00:00Z'']"
  by (simp add: matching_snapshots_def fnmatch_glob_def snaps_frac_def snap_def name_key_def
        created_key_def)

text \<open>
  C7, at two snapshots taken half a second apart, \<open>daily-a\<close> at \<open>00:00:00\<close> and \<open>daily-b\<close>
  at \<open>00:00:00.5\<close>, with \<open>keep = 1\<close>. The sort compares the \<open>created_at\<close> strings, in which
  \<open>.\<close> comes before \<open>Z\<close>: \<open>daily-b\<close>, the newer snapshot, is put first, and it is the one
  deleted. The snapshot retained is the older one.
\<close>

theorem rotation_deletes_newer_snapshot:
  "instance_snapshots_rotated (rotate_env snaps_frac (Json (sync_ok None))) fnmatch_glob (Suc 0)
      False ''web'' ''daily-*'' 1 world0
   = Some (Inr \<lparr>ret_name = ''web_rotate_daily-*'', ret_result = Some True,
                ret_changes = Some [Some ''daily-b''],
                ret_comment = DeletedOld 1 ''daily-*''\<rparr>,
           \<lparr>st = (Suc (Suc (Suc 0)), 0),
            trace = [Req (Request GET ''/instances/web'' None []),
                     Req (Request GET ''/instances/web/snapshots'' None [(''recursion'', 1)]),
                     Req (Request DELETE ''/instances/web/snapshots/daily-b'' None [])]\<rparr>)
   \<and> snaps_frac = [snap ''daily-a'' ''2024-01-01T00:00:00Z'',
                   snap ''daily-b'' ''2024-01-01T00:00:00.5Z'']
   \<and> matching_snapshots fnmatch_glob ''daily-*'' snaps_frac
     = [snap ''daily-b'' ''2024-01-01T00:00:00.5Z'', snap ''daily-a'' ''2024-01-01T00:00:00Z'']"
proof -
  have na: "\<And>r. Json (sync_ok None) = Json r \<Longrightarrow> \<not> is_async r"
    by (auto simp: is_async_def sync_ok_def)
  have run: "instance_snapshots_rotated (rotate_env snaps_frac (Json (sync_ok None))) fnmatch_glob
      (Suc 0) False ''web'' ''daily-*'' 1 world0
   = Some (Inr \<lparr>ret_name = ''web_rotate_daily-*'', ret_result = Some True,
                ret_changes = Some [Some ''daily-b''],
                ret_comment = DeletedOld 1 ''daily-*''\<rparr>,
           \<lparr>st = (Suc (Suc (Suc 0)), 0),
            trace = [Req (Request GET ''/instances/web'' None []),
                     Req (Request GET ''/instances/web/snapshots'' None [(''recursion'', 1)]),
                     Req (Request DELETE ''/instances/web/snapshots/daily-b'' None [])]\<rparr>)"
    unfolding rotated_unfold [OF rot_get rot_info(1) rot_list rot_info(1) rot_info(2)]
    by (simp add: frac_match to_delete_def py_upto_def rot_delete_third [OF na] finish_def
          sync_ok_sel ok_message_def snap_def quote_daily_ab)
  from run frac_match show ?thesis by (simp add: snaps_frac_def)
qed

end
